theory Spec2Isabelle
  imports Complex_Main "HOL-Library.Multiset" "HOL-Library.Char_ord" "HOL-Library.List_Lexorder"
begin

section \<open>Data model of recommend.py\<close>

text \<open>
  The module reads two CSV files and keeps everything it derives from them in module-level
  variables. The model takes the two tables as arguments. A row of the ratings table is a
  triple (user, product, rating); a row of the products table is a record. Numbers are the
  real numbers: rounding of 64-bit floats is not modelled. A cell that pandas holds as NaN
  (a missing value) is \<open>None\<close>. The product ids of the catalog are taken to be unique, as
  the data model of the design says; what pandas does with duplicate column labels is not
  modelled. In the functions and theorems below, \<open>rm\<close> stands for the module's variable
  \<open>rating_matrix\<close>, which is \<open>rating_matrix ratings products\<close> for the two tables read.
\<close>

datatype error = ValueError | KeyError

type_synonym ('u, 'p) rating_row = "'u \<times> 'p \<times> real"

record 'p product_row =
  product :: 'p
  product_name :: "string option"
  category :: "string option"
  price :: "real option"
  image :: "string option"

text \<open>
  A DataFrame: its row labels, its column labels, and the value at a pair of labels.
  The cell function is only read at labels of the frame. A Series is the list of its
  (label, value) pairs, in index order.
\<close>

record ('r, 'c, 'v) frame =
  index :: "'r list"
  columns :: "'c list"
  cell :: "'r \<Rightarrow> 'c \<Rightarrow> 'v"

type_synonym ('k, 'v) series = "('k \<times> 'v) list"

subsection \<open>The rating matrix (lines 33 to 43)\<close>

definition group_ratings :: "('u, 'p) rating_row list \<Rightarrow> 'u \<Rightarrow> 'p \<Rightarrow> real list" where
  "group_ratings ratings u p =
     map (\<lambda>(u', p', r). r) (filter (\<lambda>(u', p', r). u' = u \<and> p' = p) ratings)"

text \<open>The default aggregation of \<open>pivot_table\<close> is the mean; an empty group is a NaN cell.\<close>

definition mean :: "real list \<Rightarrow> real option" where
  "mean rs = (if rs = [] then None else Some (sum_list rs / real (length rs)))"

definition pivot_table ::
  "('u::linorder, 'p::linorder) rating_row list \<Rightarrow> ('u, 'p, real option) frame" where
  "pivot_table ratings =
     \<lparr> index = sort (remdups (map (\<lambda>(u, p, r). u) ratings)),
       columns = sort (remdups (map (\<lambda>(u, p, r). p) ratings)),
       cell = (\<lambda>u p. mean (group_ratings ratings u p)) \<rparr>"

text \<open>
  \<open>reindex(columns=cs, fill_value=v)\<close>: the columns become \<open>cs\<close>; a column that was not
  there is filled with \<open>v\<close>, a column that was there keeps its cells, NaN included.
\<close>

definition reindex_columns ::
  "'c list \<Rightarrow> real \<Rightarrow> ('r, 'c, real option) frame \<Rightarrow> ('r, 'c, real option) frame" where
  "reindex_columns cs v df =
     \<lparr> index = index df,
       columns = cs,
       cell = (\<lambda>r c. if c \<in> set (columns df) then cell df r c else Some v) \<rparr>"

definition fillna :: "real \<Rightarrow> ('r, 'c, real option) frame \<Rightarrow> ('r, 'c, real) frame" where
  "fillna v df =
     \<lparr> index = index df,
       columns = columns df,
       cell = (\<lambda>r c. case cell df r c of None \<Rightarrow> v | Some x \<Rightarrow> x) \<rparr>"

definition rating_matrix ::
  "('u::linorder, 'p::linorder) rating_row list \<Rightarrow> 'p product_row list \<Rightarrow> ('u, 'p, real) frame" where
  "rating_matrix ratings products =
     fillna 0 (reindex_columns (map product products) 0 (pivot_table ratings))"

subsection \<open>Cosine similarity (lines 46 to 56)\<close>

text \<open>
  \<open>sklearn.metrics.pairwise.cosine_similarity(X)\<close> scales every row of \<open>X\<close> to unit
  Euclidean length and returns the matrix of the dot products of the scaled rows. A row
  whose norm is zero is divided by 1 instead (\<open>_handle_zeros_in_scale\<close>), so it stays the
  zero row and no division by zero takes place.
\<close>

definition row_norm :: "real list \<Rightarrow> real" where
  "row_norm v = sqrt (sum_list (map (\<lambda>x. x * x) v))"

definition handle_zeros_in_scale :: "real \<Rightarrow> real" where
  "handle_zeros_in_scale n = (if n = 0 then 1 else n)"

definition l2_normalize :: "real list \<Rightarrow> real list" where
  "l2_normalize v = map (\<lambda>x. x / handle_zeros_in_scale (row_norm v)) v"

definition dot :: "real list \<Rightarrow> real list \<Rightarrow> real" where
  "dot v w = sum_list (map2 (*) v w)"

definition cosine :: "real list \<Rightarrow> real list \<Rightarrow> real" where
  "cosine v w = dot (l2_normalize v) (l2_normalize w)"

definition row_vec :: "('r, 'c, real) frame \<Rightarrow> 'r \<Rightarrow> real list" where
  "row_vec df r = map (cell df r) (columns df)"

definition col_vec :: "('r, 'c, real) frame \<Rightarrow> 'c \<Rightarrow> real list" where
  "col_vec df c = map (\<lambda>r. cell df r c) (index df)"

definition item_similarity :: "('u, 'p, real) frame \<Rightarrow> ('p, 'p, real) frame" where
  "item_similarity rm =
     \<lparr> index = columns rm,
       columns = columns rm,
       cell = (\<lambda>p q. cosine (col_vec rm p) (col_vec rm q)) \<rparr>"

definition user_similarity :: "('u, 'p, real) frame \<Rightarrow> ('u, 'u, real) frame" where
  "user_similarity rm =
     \<lparr> index = index rm,
       columns = index rm,
       cell = (\<lambda>u v. cosine (row_vec rm u) (row_vec rm v)) \<rparr>"


subsection \<open>Arithmetic on series\<close>

text \<open>
  numpy's division does not raise on a zero divisor: the quotient is NaN or an infinity.
  A score is therefore a \<open>real option\<close>, where \<open>None\<close> stands for a value that is not a
  finite number; a product or a sum with such a value is again not a finite number.
\<close>

definition fdiv :: "real \<Rightarrow> real \<Rightarrow> real option" where
  "fdiv x y = (if y = 0 then None else Some (x / y))"

definition eps :: real where
  "eps = 1 / 10 ^ 9"

definition loc :: "('r, 'c, 'v) frame \<Rightarrow> 'r \<Rightarrow> error + ('c, 'v) series" where
  "loc df r =
     (if r \<in> set (index df) then Inr (map (\<lambda>c. (c, cell df r c)) (columns df))
      else Inl KeyError)"

definition getitem_column :: "('r, 'c, 'v) frame \<Rightarrow> 'c \<Rightarrow> error + ('r, 'v) series" where
  "getitem_column df c =
     (if c \<in> set (columns df) then Inr (map (\<lambda>r. (r, cell df r c)) (index df))
      else Inl KeyError)"

text \<open>\<open>df.dot(s)\<close>, for a series whose index is the frame's columns.\<close>

definition frame_dot :: "('r, 'c, real) frame \<Rightarrow> ('c, real) series \<Rightarrow> ('r, real) series" where
  "frame_dot df s = map (\<lambda>r. (r, sum_list (map (\<lambda>(c, x). cell df r c * x) s))) (index df)"

definition sum_axis1 :: "('r, 'c, real) frame \<Rightarrow> ('r, real) series" where
  "sum_axis1 df = map (\<lambda>r. (r, sum_list (map (cell df r) (columns df)))) (index df)"

definition series_add_const :: "('k, real) series \<Rightarrow> real \<Rightarrow> ('k, real) series" where
  "series_add_const s c = map (\<lambda>(k, x). (k, x + c)) s"

text \<open>The next three combine two series that have the same index, entry by entry.\<close>

definition series_div :: "('k, real) series \<Rightarrow> ('k, real) series \<Rightarrow> ('k, real option) series" where
  "series_div s t = map2 (\<lambda>(k, x) (k', y). (k, fdiv x y)) s t"

definition series_scale :: "real \<Rightarrow> ('k, real option) series \<Rightarrow> ('k, real option) series" where
  "series_scale a s = map (\<lambda>(k, v). (k, map_option (\<lambda>x. a * x) v)) s"

definition fadd :: "real option \<Rightarrow> real option \<Rightarrow> real option" where
  "fadd v w = (case v of None \<Rightarrow> None | Some x \<Rightarrow> (case w of None \<Rightarrow> None | Some y \<Rightarrow> Some (x + y)))"

definition series_add ::
  "('k, real option) series \<Rightarrow> ('k, real option) series \<Rightarrow> ('k, real option) series" where
  "series_add s t = map2 (\<lambda>(k, v) (k', w). (k, fadd v w)) s t"

subsection \<open>Score functions (lines 59 to 84)\<close>

definition item_based_score ::
  "('u, 'p, real) frame \<Rightarrow> 'u \<Rightarrow> error + ('p, real option) series" where
  "item_based_score rm user_id =
     (case loc rm user_id of
        Inl e \<Rightarrow> Inl e
      | Inr user_ratings \<Rightarrow>
          Inr (series_div (frame_dot (item_similarity rm) user_ratings)
                 (series_add_const (sum_axis1 (item_similarity rm)) eps)))"

definition user_based_score ::
  "('u, 'p, real) frame \<Rightarrow> 'u \<Rightarrow> error + ('p, real option) series" where
  "user_based_score rm user_id =
     (case getitem_column (user_similarity rm) user_id of
        Inl e \<Rightarrow> Inl e
      | Inr sims0 \<Rightarrow>
          let sims = filter (\<lambda>(u, s). u \<noteq> user_id) sims0;
              weighted = map (\<lambda>p. fdiv (sum_list (map (\<lambda>(u, s). s * cell rm u p) sims))
                                        (sum_list (map snd sims) + eps)) (columns rm)
          in Inr (zip (columns rm) weighted))"

definition get_hybrid_scores ::
  "('u, 'p, real) frame \<Rightarrow> 'u \<Rightarrow> real \<Rightarrow> error + ('p, real option) series" where
  "get_hybrid_scores rm user_id alpha =
     (if user_id \<notin> set (index rm) then Inl ValueError
      else case item_based_score rm user_id of
             Inl e \<Rightarrow> Inl e
           | Inr ib \<Rightarrow>
               (case user_based_score rm user_id of
                  Inl e \<Rightarrow> Inl e
                | Inr ub \<Rightarrow> Inr (series_add (series_scale alpha ub) (series_scale (1 - alpha) ib))))"

subsection \<open>Recommendation (lines 87 to 112)\<close>

text \<open>
  A row of the result: the product row joined to the candidate, with the column \<open>score\<close>.
\<close>

record 'p recommendation = "'p product_row" +
  score :: "real option"

text \<open>
  \<open>sort_values(ascending=False)\<close> uses pandas' default sorting algorithm, which is
  documented as not stable. The model takes the sorting function as an argument; what the
  library promises of it is that the result is a rearrangement of the series in which no
  finite score is followed by a larger finite score.
\<close>

definition score_desc :: "'k \<times> real option \<Rightarrow> 'k \<times> real option \<Rightarrow> bool" where
  "score_desc a b = (case snd a of None \<Rightarrow> True | Some x \<Rightarrow> (case snd b of None \<Rightarrow> True | Some y \<Rightarrow> y \<le> x))"

definition sort_values_desc ::
  "(('k, real option) series \<Rightarrow> ('k, real option) series) \<Rightarrow> bool" where
  "sort_values_desc srt \<longleftrightarrow> (\<forall>xs. mset (srt xs) = mset xs \<and> sorted_wrt score_desc (srt xs))"

text \<open>\<open>head(n)\<close>: the first \<open>n\<close> rows; for a negative \<open>n\<close>, all rows but the last \<open>-n\<close>.\<close>

definition head :: "int \<Rightarrow> 'a list \<Rightarrow> 'a list" where
  "head n xs = (if 0 \<le> n then take (nat n) xs else take (length xs - nat (- n)) xs)"

text \<open>\<open>s[~mask]\<close>, for a boolean series with the index of \<open>s\<close>.\<close>

definition drop_masked :: "('k, 'v) series \<Rightarrow> ('k, bool) series \<Rightarrow> ('k, 'v) series" where
  "drop_masked s msk = map fst (filter (\<lambda>(kv, km). \<not> snd km) (zip s msk))"

text \<open>
  \<open>merge(products, on="product", how="left")\<close>: every row of the left table, in order,
  with each products row of the same product id, or with missing values when there is none.
\<close>

definition join_row :: "'p \<times> real option \<Rightarrow> 'p product_row \<Rightarrow> 'p recommendation" where
  "join_row c r =
     \<lparr> product = fst c, product_name = product_name r, category = category r,
       price = price r, image = image r, score = snd c \<rparr>"

definition unmatched_row :: "'p \<times> real option \<Rightarrow> 'p recommendation" where
  "unmatched_row c =
     \<lparr> product = fst c, product_name = None, category = None,
       price = None, image = None, score = snd c \<rparr>"

definition merge_left ::
  "('p, real option) series \<Rightarrow> 'p product_row list \<Rightarrow> 'p recommendation list" where
  "merge_left recs products =
     concat (map (\<lambda>c. case filter (\<lambda>r. product r = fst c) products of
                         [] \<Rightarrow> [unmatched_row c]
                       | ms \<Rightarrow> map (join_row c) ms) recs)"

text \<open>The order of two rows of the result by descending score.\<close>

definition row_desc :: "'p recommendation \<Rightarrow> 'p recommendation \<Rightarrow> bool" where
  "row_desc a b = score_desc (product a, score a) (product b, score b)"

definition price_ok :: "real \<Rightarrow> 'p recommendation \<Rightarrow> bool" where
  "price_ok price_limit r = (case price r of None \<Rightarrow> False | Some x \<Rightarrow> x \<le> price_limit)"

definition hybrid_recommend ::
  "(('p, real option) series \<Rightarrow> ('p, real option) series) \<Rightarrow> ('u, 'p, real) frame \<Rightarrow>
   'p product_row list \<Rightarrow> 'u \<Rightarrow> real \<Rightarrow> int \<Rightarrow> real option \<Rightarrow> string option \<Rightarrow>
   error + 'p recommendation list" where
  "hybrid_recommend srt rm products user_id alpha top_n price_limit cat =
     (case get_hybrid_scores rm user_id alpha of
        Inl e \<Rightarrow> Inl e
      | Inr hybrid \<Rightarrow>
          (case loc rm user_id of
             Inl e \<Rightarrow> Inl e
           | Inr user_ratings \<Rightarrow>
               let already_rated = map (\<lambda>(p, r). (p, r > 0)) user_ratings;
                   candidates = drop_masked hybrid already_rated;
                   recs = merge_left (head top_n (srt candidates)) products;
                   recs = (case price_limit of
                             None \<Rightarrow> recs
                           | Some limit \<Rightarrow> filter (price_ok limit) recs);
                   recs = (case cat of
                             None \<Rightarrow> recs
                           | Some c \<Rightarrow> filter (\<lambda>r. category r = Some c) recs)
               in Inr recs))"

subsection \<open>The score formula of the design, in its own words\<close>

text \<open>
  The item-based score of product \<open>p\<close> for a user: the sum, over the products \<open>q\<close> the
  user has rated (a nonzero cell), of the similarity of \<open>p\<close> and \<open>q\<close> times the user's
  rating of \<open>q\<close>, divided by the sum of the similarities of \<open>p\<close> to all products plus
  \<open>eps\<close>.
\<close>

definition item_score_formula :: "('u, 'p, real) frame \<Rightarrow> 'u \<Rightarrow> 'p \<Rightarrow> real option" where
  "item_score_formula rm u p =
     fdiv (\<Sum>q\<leftarrow>filter (\<lambda>q. cell rm u q \<noteq> 0) (columns rm).
             cell (item_similarity rm) p q * cell rm u q)
          ((\<Sum>q\<leftarrow>columns rm. cell (item_similarity rm) p q) + eps)"

subsection \<open>A sorting function and example data\<close>

text \<open>
  Insertion sort by descending score, values that are not finite last: one sorting function
  that keeps the promise \<open>sort_values_desc\<close>, used to run the model on the data below.
\<close>

fun score_ge :: "real option \<Rightarrow> real option \<Rightarrow> bool" where
  "score_ge v None = True"
| "score_ge None (Some y) = False"
| "score_ge (Some x) (Some y) = (y \<le> x)"

fun insert_desc :: "'k \<times> real option \<Rightarrow> ('k, real option) series \<Rightarrow> ('k, real option) series" where
  "insert_desc a [] = [a]"
| "insert_desc a (b # bs) = (if score_ge (snd a) (snd b) then a # b # bs else b # insert_desc a bs)"

definition insertion_sort_desc :: "('k, real option) series \<Rightarrow> ('k, real option) series" where
  "insertion_sort_desc xs = foldr insert_desc xs []"

definition ex_ratings :: "(string, string) rating_row list" where
  "ex_ratings =
     [(''U1'', ''A'', 4), (''U2'', ''A'', 4), (''U1'', ''B'', 4), (''U1'', ''A'', 2),
      (''U3'', ''B'', 3), (''U2'', ''C'', 3), (''U3'', ''C'', 4), (''U4'', ''Z'', 5)]"

definition ex_product :: "string \<Rightarrow> string \<Rightarrow> real option \<Rightarrow> string product_row" where
  "ex_product p c x =
     \<lparr> product = p, product_name = Some p, category = Some c, price = x, image = Some [] \<rparr>"

definition ex_products :: "string product_row list" where
  "ex_products =
     [ex_product ''A'' ''Toys'' (Some 10), ex_product ''B'' ''Toys'' None,
      ex_product ''C'' ''Books'' (Some 900), ex_product ''D'' ''Books'' (Some 100),
      ex_product ''E'' ''Toys'' (Some 50)]"

definition ex_rm :: "(string, string, real) frame" where
  "ex_rm = rating_matrix ex_ratings ex_products"

text \<open>
  A second ratings table, where the only user has rated product \<open>A\<close> with \<open>-1\<close> and
  product \<open>B\<close> with \<open>1\<close>.
\<close>

definition ex_neg_ratings :: "(string, string) rating_row list" where
  "ex_neg_ratings = [(''U1'', ''A'', - 1), (''U1'', ''B'', 1)]"

definition ex_neg_products :: "string product_row list" where
  "ex_neg_products = [ex_product ''A'' ''Toys'' (Some 10), ex_product ''B'' ''Toys'' (Some 20)]"

definition ex_neg_rm :: "(string, string, real) frame" where
  "ex_neg_rm = rating_matrix ex_neg_ratings ex_neg_products"

section \<open>Cosine similarity\<close>

lemma dot_commute: "dot v w = dot w v"
proof -
  have "map2 (*) v w = map2 (*) w v"
    by (induction v arbitrary: w) (auto simp: mult.commute split: list.splits, case_tac w, auto simp: mult.commute)
  then show ?thesis by (simp add: dot_def)
qed

lemma cosine_commute: "cosine v w = cosine w v"
  by (simp add: cosine_def dot_commute)

lemma sum_squares_nonneg: "0 \<le> sum_list (map (\<lambda>x. x * x) (v::real list))"
  by (rule sum_list_nonneg) auto

lemma row_norm_nonneg: "0 \<le> row_norm v"
  by (simp add: row_norm_def sum_squares_nonneg)



lemma handle_zeros_in_scale_pos: "0 < handle_zeros_in_scale (row_norm v)"
  using row_norm_nonneg [of v] by (auto simp: handle_zeros_in_scale_def)



lemma l2_normalize_zero: "\<forall>x\<in>set v. x = 0 \<Longrightarrow> l2_normalize v = map (\<lambda>x. 0) v"
  by (simp add: l2_normalize_def)

lemma dot_zero_left: "\<forall>x\<in>set v. x = 0 \<Longrightarrow> dot v w = 0"
proof (induction v arbitrary: w)
  case Nil
  show ?case by (simp add: dot_def)
next
  case (Cons a v)
  then show ?case by (cases w) (auto simp: dot_def)
qed

lemma cosine_zero_left: "\<forall>x\<in>set v. x = 0 \<Longrightarrow> cosine v w = 0"
  by (simp add: cosine_def l2_normalize_def dot_zero_left)




lemma ex_index: "index ex_rm = [''U1'', ''U2'', ''U3'', ''U4'']"
  by (simp add: ex_rm_def rating_matrix_def fillna_def reindex_columns_def pivot_table_def
      ex_ratings_def)

lemma ex_columns: "columns ex_rm = [''A'', ''B'', ''C'', ''D'', ''E'']"
  by (simp add: ex_rm_def rating_matrix_def fillna_def reindex_columns_def ex_products_def
      ex_product_def)

lemma ex_rows:
  "map (row_vec ex_rm) (index ex_rm) =
     [[3, 4, 0, 0, 0], [4, 0, 3, 0, 0], [0, 3, 4, 0, 0], [0, 0, 0, 0, 0]]"
  by (simp add: ex_index row_vec_def ex_columns)
     (simp add: ex_rm_def rating_matrix_def fillna_def reindex_columns_def pivot_table_def
      ex_ratings_def ex_products_def ex_product_def mean_def group_ratings_def)

lemma ex_cols:
  "map (col_vec ex_rm) (columns ex_rm) =
     [[3, 4, 0, 0], [4, 0, 3, 0], [0, 3, 4, 0], [0, 0, 0, 0], [0, 0, 0, 0]]"
  by (simp add: ex_index col_vec_def ex_columns)
     (simp add: ex_rm_def rating_matrix_def fillna_def reindex_columns_def pivot_table_def
      ex_ratings_def ex_products_def ex_product_def mean_def group_ratings_def)



text \<open>
  C7. A product that nobody rated (its column of the rating matrix is zero) has similarity
  0 with every product, and a user whose row is zero has similarity 0 with every user. The
  number a rating vector is divided by is never zero, so no entry is undefined.
\<close>

theorem zero_vector_similarity:
  "((\<forall>u'\<in>set (index rm). cell rm u' p = 0) \<longrightarrow>
      cell (item_similarity rm) p q = 0 \<and> cell (item_similarity rm) q p = 0)
   \<and> ((\<forall>p'\<in>set (columns rm). cell rm u p' = 0) \<longrightarrow>
      cell (user_similarity rm) u v = 0 \<and> cell (user_similarity rm) v u = 0)
   \<and> handle_zeros_in_scale (row_norm (col_vec rm q)) \<noteq> 0
   \<and> handle_zeros_in_scale (row_norm (row_vec rm v)) \<noteq> 0"
proof -
  have "cell (item_similarity rm) p q = 0 \<and> cell (item_similarity rm) q p = 0"
    if "\<forall>u'\<in>set (index rm). cell rm u' p = 0"
  proof -
    from that have "\<forall>x\<in>set (col_vec rm p). x = 0"
      by (auto simp: col_vec_def)
    then have "cosine (col_vec rm p) (col_vec rm q) = 0"
      by (rule cosine_zero_left)
    then show ?thesis
      by (simp add: item_similarity_def cosine_commute [of "col_vec rm q"])
  qed
  moreover have "cell (user_similarity rm) u v = 0 \<and> cell (user_similarity rm) v u = 0"
    if "\<forall>p'\<in>set (columns rm). cell rm u p' = 0"
  proof -
    from that have "\<forall>x\<in>set (row_vec rm u). x = 0"
      by (auto simp: row_vec_def)
    then have "cosine (row_vec rm u) (row_vec rm v) = 0"
      by (rule cosine_zero_left)
    then show ?thesis
      by (simp add: user_similarity_def cosine_commute [of "row_vec rm v"])
  qed
  moreover have "handle_zeros_in_scale (row_norm (col_vec rm q)) \<noteq> 0"
    using handle_zeros_in_scale_pos [of "col_vec rm q"] by simp
  moreover have "handle_zeros_in_scale (row_norm (row_vec rm v)) \<noteq> 0"
    using handle_zeros_in_scale_pos [of "row_vec rm v"] by simp
  ultimately show ?thesis by blast
qed

theorem zero_vector_similarity_witness:
  "col_vec ex_rm ''D'' = [0, 0, 0, 0]
   \<and> cell (item_similarity ex_rm) ''D'' ''A'' = 0 \<and> cell (item_similarity ex_rm) ''A'' ''D'' = 0
   \<and> row_vec ex_rm ''U4'' = [0, 0, 0, 0, 0]
   \<and> cell (user_similarity ex_rm) ''U4'' ''U1'' = 0 \<and> cell (user_similarity ex_rm) ''U1'' ''U4'' = 0"
proof -
  have c: "col_vec ex_rm ''D'' = [0, 0, 0, 0]" and r: "row_vec ex_rm ''U4'' = [0, 0, 0, 0, 0]"
    using ex_cols ex_rows by (simp_all add: ex_index ex_columns)
  have h1: "\<forall>u'\<in>set (index ex_rm). cell ex_rm u' ''D'' = 0"
    using c by (simp add: col_vec_def ex_index)
  have h2: "\<forall>p'\<in>set (columns ex_rm). cell ex_rm ''U4'' p' = 0"
    using r by (simp add: row_vec_def ex_columns)
  show ?thesis
    using zero_vector_similarity [of ex_rm "''D''" "''A''" "''U4''" "''U1''"] h1 h2 c r
    by blast
qed

section \<open>The rating matrix\<close>

lemma index_rating_matrix:
  "set (index (rating_matrix ratings products)) = (\<lambda>(u, p, r). u) ` set ratings"
  by (simp add: rating_matrix_def fillna_def reindex_columns_def pivot_table_def)

lemma columns_rating_matrix:
  "columns (rating_matrix ratings products) = map product products"
  by (simp add: rating_matrix_def fillna_def reindex_columns_def)

lemma group_ratings_in_columns:
  "group_ratings ratings u p \<noteq> [] \<Longrightarrow> p \<in> set (columns (pivot_table ratings))"
  by (force simp: group_ratings_def pivot_table_def filter_empty_conv)

lemma group_ratings_in_index:
  "group_ratings ratings u p \<noteq> [] \<Longrightarrow> u \<in> set (index (pivot_table ratings))"
  by (force simp: group_ratings_def pivot_table_def filter_empty_conv)

lemma cell_rating_matrix_rated:
  "group_ratings ratings u p \<noteq> [] \<Longrightarrow>
     cell (rating_matrix ratings products) u p =
       sum_list (group_ratings ratings u p) / real (length (group_ratings ratings u p))"
  by (simp add: rating_matrix_def fillna_def reindex_columns_def group_ratings_in_columns)
     (simp add: pivot_table_def mean_def)

text \<open>
  C10. When the ratings table holds several records for one (user, product) pair of the
  catalog, the cell of the rating matrix is the arithmetic mean of their ratings (their sum
  divided by their number), and the user and the product are labels of the matrix; with a
  single record the cell is that record's rating.
\<close>

theorem rating_matrix_duplicates_mean:
  assumes "group_ratings ratings u p = rs" and "rs \<noteq> []" and "p \<in> product ` set products"
  shows "u \<in> set (index (rating_matrix ratings products))
       \<and> p \<in> set (columns (rating_matrix ratings products))
       \<and> cell (rating_matrix ratings products) u p = sum_list rs / real (length rs)
       \<and> (\<forall>r. rs = [r] \<longrightarrow> cell (rating_matrix ratings products) u p = r)"
proof -
  have g: "group_ratings ratings u p \<noteq> []"
    using assms(1,2) by simp
  have "u \<in> set (index (pivot_table ratings))"
    using g by (rule group_ratings_in_index)
  then have i: "u \<in> set (index (rating_matrix ratings products))"
    by (simp add: rating_matrix_def fillna_def reindex_columns_def)
  have c: "p \<in> set (columns (rating_matrix ratings products))"
    using assms(3) by (simp add: columns_rating_matrix)
  have m: "cell (rating_matrix ratings products) u p = sum_list rs / real (length rs)"
    using cell_rating_matrix_rated [OF g] assms(1) by simp
  from i c m show ?thesis by auto
qed

theorem rating_matrix_duplicates_mean_witness:
  "group_ratings ex_ratings ''U1'' ''A'' = [4, 2] \<and> [4, 2] \<noteq> ([]::real list)
   \<and> ''A'' \<in> product ` set ex_products
   \<and> cell (rating_matrix ex_ratings ex_products) ''U1'' ''A'' = 3
   \<and> group_ratings ex_ratings ''U1'' ''B'' = [4]
   \<and> cell (rating_matrix ex_ratings ex_products) ''U1'' ''B'' = 4"
proof -
  have g: "group_ratings ex_ratings ''U1'' ''A'' = [4, 2]"
    and g': "group_ratings ex_ratings ''U1'' ''B'' = [4]"
    by (simp_all add: group_ratings_def ex_ratings_def)
  have a: "''A'' \<in> product ` set ex_products" and b: "''B'' \<in> product ` set ex_products"
    by (simp_all add: ex_products_def ex_product_def)
  show ?thesis
    using rating_matrix_duplicates_mean [OF g _ a] rating_matrix_duplicates_mean [OF g' _ b] g g' a
    by simp
qed

section \<open>Scores and recommendations\<close>

lemma map2_same_index:
  "map2 f (map g xs) (map h xs) = map (\<lambda>x. f (g x) (h x)) xs"
  by (simp add: zip_map_map zip_same_conv_map comp_def)

lemma item_based_score_eq:
  assumes "u \<in> set (index rm)"
  shows "item_based_score rm u =
     Inr (map (\<lambda>p. (p, fdiv (\<Sum>q\<leftarrow>columns rm. cell (item_similarity rm) p q * cell rm u q)
                          ((\<Sum>q\<leftarrow>columns rm. cell (item_similarity rm) p q) + eps)))
            (columns rm))"
proof -
  have i: "index (item_similarity rm) = columns rm" and c: "columns (item_similarity rm) = columns rm"
    by (simp_all add: item_similarity_def)
  show ?thesis
    using assms
    by (simp add: item_based_score_def loc_def series_div_def frame_dot_def sum_axis1_def
        series_add_const_def i c map2_same_index comp_def)
qed

lemma user_based_score_eq:
  assumes "u \<in> set (index rm)"
  shows "user_based_score rm u =
     Inr (map (\<lambda>p. (p, fdiv (\<Sum>v\<leftarrow>filter (\<lambda>v. v \<noteq> u) (index rm). cell (user_similarity rm) v u * cell rm v p)
                          ((\<Sum>v\<leftarrow>filter (\<lambda>v. v \<noteq> u) (index rm). cell (user_similarity rm) v u) + eps)))
            (columns rm))"
proof -
  have i: "index (user_similarity rm) = index rm" and c: "columns (user_similarity rm) = index rm"
    by (simp_all add: user_similarity_def)
  have f: "filter (\<lambda>(v, s). v \<noteq> u) (map (\<lambda>r. (r, cell (user_similarity rm) r u)) (index rm))
      = map (\<lambda>r. (r, cell (user_similarity rm) r u)) (filter (\<lambda>v. v \<noteq> u) (index rm))"
    by (simp add: filter_map comp_def)
  show ?thesis
    using assms
    by (simp add: user_based_score_def getitem_column_def i c f Let_def comp_def zip_map2 zip_same_conv_map)
qed


lemma sum_list_rated_only:
  "(\<Sum>q\<leftarrow>filter (\<lambda>q. r q \<noteq> 0) xs. f q * r q) = (\<Sum>q\<leftarrow>xs. f q * (r q :: real))"
  by (induction xs) auto

lemma item_score_formula_all:
  "item_score_formula rm u p =
     fdiv (\<Sum>q\<leftarrow>columns rm. cell (item_similarity rm) p q * cell rm u q)
          ((\<Sum>q\<leftarrow>columns rm. cell (item_similarity rm) p q) + eps)"
  by (simp add: item_score_formula_def sum_list_rated_only)

lemma eps_pos: "0 < eps"
  by (simp add: eps_def)





lemma series_blend:
  "series_add (series_scale a (map (\<lambda>p. (p, U p)) cs)) (series_scale b (map (\<lambda>p. (p, I p)) cs)) =
     map (\<lambda>p. (p, fadd (map_option (\<lambda>x. a * x) (U p)) (map_option (\<lambda>x. b * x) (I p)))) cs"
  by (simp add: series_add_def series_scale_def map2_same_index comp_def)


lemma get_hybrid_scores_eq:
  assumes "u \<in> set (index rm)"
  shows "get_hybrid_scores rm u alpha =
     Inr (map (\<lambda>p. (p, fadd
        (map_option (\<lambda>x. alpha * x)
           (fdiv (\<Sum>v\<leftarrow>filter (\<lambda>v. v \<noteq> u) (index rm). cell (user_similarity rm) v u * cell rm v p)
                 ((\<Sum>v\<leftarrow>filter (\<lambda>v. v \<noteq> u) (index rm). cell (user_similarity rm) v u) + eps)))
        (map_option (\<lambda>x. (1 - alpha) * x)
           (fdiv (\<Sum>q\<leftarrow>columns rm. cell (item_similarity rm) p q * cell rm u q)
                 ((\<Sum>q\<leftarrow>columns rm. cell (item_similarity rm) p q) + eps)))))
       (columns rm))"
  using assms
  by (simp add: get_hybrid_scores_def item_based_score_eq user_based_score_eq series_blend)

lemma get_hybrid_scores_shape:
  assumes "u \<in> set (index rm)"
  shows "\<exists>H. get_hybrid_scores rm u alpha = Inr (map (\<lambda>p. (p, H p)) (columns rm))"
  by (rule exI) (rule get_hybrid_scores_eq [OF assms])

lemma sqrt_25: "sqrt 25 = 5"
  by (rule real_sqrt_unique) simp_all

lemma ex_col_vec:
  "col_vec ex_rm ''A'' = [3, 4, 0, 0]" "col_vec ex_rm ''B'' = [4, 0, 3, 0]"
  "col_vec ex_rm ''C'' = [0, 3, 4, 0]" "col_vec ex_rm ''D'' = [0, 0, 0, 0]"
  "col_vec ex_rm ''E'' = [0, 0, 0, 0]"
  using ex_cols by (simp_all add: ex_columns)

lemma ex_row_vec:
  "row_vec ex_rm ''U1'' = [3, 4, 0, 0, 0]" "row_vec ex_rm ''U2'' = [4, 0, 3, 0, 0]"
  "row_vec ex_rm ''U3'' = [0, 3, 4, 0, 0]" "row_vec ex_rm ''U4'' = [0, 0, 0, 0, 0]"
  using ex_rows by (simp_all add: ex_index)

lemma ex_cell:
  "cell ex_rm ''U1'' ''A'' = 3"
  "cell ex_rm ''U1'' ''B'' = 4"
  "cell ex_rm ''U1'' ''C'' = 0"
  "cell ex_rm ''U1'' ''D'' = 0"
  "cell ex_rm ''U1'' ''E'' = 0"
  "cell ex_rm ''U2'' ''A'' = 4"
  "cell ex_rm ''U2'' ''B'' = 0"
  "cell ex_rm ''U2'' ''C'' = 3"
  "cell ex_rm ''U2'' ''D'' = 0"
  "cell ex_rm ''U2'' ''E'' = 0"
  "cell ex_rm ''U3'' ''A'' = 0"
  "cell ex_rm ''U3'' ''B'' = 3"
  "cell ex_rm ''U3'' ''C'' = 4"
  "cell ex_rm ''U3'' ''D'' = 0"
  "cell ex_rm ''U3'' ''E'' = 0"
  "cell ex_rm ''U4'' ''A'' = 0"
  "cell ex_rm ''U4'' ''B'' = 0"
  "cell ex_rm ''U4'' ''C'' = 0"
  "cell ex_rm ''U4'' ''D'' = 0"
  "cell ex_rm ''U4'' ''E'' = 0"
  using ex_row_vec by (simp_all add: row_vec_def ex_columns)

lemma ex_item_sim:
  "cell (item_similarity ex_rm) ''A'' ''A'' = 1"
  "cell (item_similarity ex_rm) ''A'' ''B'' = 12 / 25"
  "cell (item_similarity ex_rm) ''A'' ''C'' = 12 / 25"
  "cell (item_similarity ex_rm) ''A'' ''D'' = 0"
  "cell (item_similarity ex_rm) ''A'' ''E'' = 0"
  "cell (item_similarity ex_rm) ''B'' ''A'' = 12 / 25"
  "cell (item_similarity ex_rm) ''B'' ''B'' = 1"
  "cell (item_similarity ex_rm) ''B'' ''C'' = 12 / 25"
  "cell (item_similarity ex_rm) ''B'' ''D'' = 0"
  "cell (item_similarity ex_rm) ''B'' ''E'' = 0"
  "cell (item_similarity ex_rm) ''C'' ''A'' = 12 / 25"
  "cell (item_similarity ex_rm) ''C'' ''B'' = 12 / 25"
  "cell (item_similarity ex_rm) ''C'' ''C'' = 1"
  "cell (item_similarity ex_rm) ''C'' ''D'' = 0"
  "cell (item_similarity ex_rm) ''C'' ''E'' = 0"
  "cell (item_similarity ex_rm) ''D'' ''A'' = 0"
  "cell (item_similarity ex_rm) ''D'' ''B'' = 0"
  "cell (item_similarity ex_rm) ''D'' ''C'' = 0"
  "cell (item_similarity ex_rm) ''D'' ''D'' = 0"
  "cell (item_similarity ex_rm) ''D'' ''E'' = 0"
  "cell (item_similarity ex_rm) ''E'' ''A'' = 0"
  "cell (item_similarity ex_rm) ''E'' ''B'' = 0"
  "cell (item_similarity ex_rm) ''E'' ''C'' = 0"
  "cell (item_similarity ex_rm) ''E'' ''D'' = 0"
  "cell (item_similarity ex_rm) ''E'' ''E'' = 0"
  by (simp_all add: item_similarity_def ex_col_vec cosine_def dot_def l2_normalize_def
      row_norm_def handle_zeros_in_scale_def sqrt_25)

lemma ex_user_sim:
  "cell (user_similarity ex_rm) ''U1'' ''U1'' = 1"
  "cell (user_similarity ex_rm) ''U1'' ''U2'' = 12 / 25"
  "cell (user_similarity ex_rm) ''U1'' ''U3'' = 12 / 25"
  "cell (user_similarity ex_rm) ''U1'' ''U4'' = 0"
  "cell (user_similarity ex_rm) ''U2'' ''U1'' = 12 / 25"
  "cell (user_similarity ex_rm) ''U2'' ''U2'' = 1"
  "cell (user_similarity ex_rm) ''U2'' ''U3'' = 12 / 25"
  "cell (user_similarity ex_rm) ''U2'' ''U4'' = 0"
  "cell (user_similarity ex_rm) ''U3'' ''U1'' = 12 / 25"
  "cell (user_similarity ex_rm) ''U3'' ''U2'' = 12 / 25"
  "cell (user_similarity ex_rm) ''U3'' ''U3'' = 1"
  "cell (user_similarity ex_rm) ''U3'' ''U4'' = 0"
  "cell (user_similarity ex_rm) ''U4'' ''U1'' = 0"
  "cell (user_similarity ex_rm) ''U4'' ''U2'' = 0"
  "cell (user_similarity ex_rm) ''U4'' ''U3'' = 0"
  "cell (user_similarity ex_rm) ''U4'' ''U4'' = 0"
  by (simp_all add: user_similarity_def ex_row_vec cosine_def dot_def l2_normalize_def
      row_norm_def handle_zeros_in_scale_def sqrt_25)

lemma ex_item_scores:
  "item_based_score ex_rm ''U1'' =
     Inr [(''A'', fdiv (123 / 25) (49 / 25 + eps)), (''B'', fdiv (136 / 25) (49 / 25 + eps)),
          (''C'', fdiv (84 / 25) (49 / 25 + eps)), (''D'', fdiv 0 eps), (''E'', fdiv 0 eps)]"
  by (simp add: item_based_score_eq ex_index ex_columns ex_item_sim ex_cell)

lemma ex_user_scores:
  "user_based_score ex_rm ''U1'' =
     Inr [(''A'', fdiv (48 / 25) (24 / 25 + eps)), (''B'', fdiv (36 / 25) (24 / 25 + eps)),
          (''C'', fdiv (84 / 25) (24 / 25 + eps)), (''D'', fdiv 0 (24 / 25 + eps)),
          (''E'', fdiv 0 (24 / 25 + eps))]"
  by (simp add: user_based_score_eq ex_index ex_columns ex_user_sim ex_cell)


lemma score_ge_total: "\<not> score_ge v w \<Longrightarrow> score_ge w v"
  by (cases v; cases w) auto

lemma score_ge_trans: "score_ge v w \<Longrightarrow> score_ge w x \<Longrightarrow> score_ge v x"
  by (cases v; cases w; cases x) auto

lemma mset_insert_desc: "mset (insert_desc a xs) = add_mset a (mset xs)"
  by (induction xs) auto

lemma set_insert_desc: "set (insert_desc a xs) = insert a (set xs)"
  by (induction xs) auto

lemma sorted_insert_desc:
  "sorted_wrt (\<lambda>a b. score_ge (snd a) (snd b)) xs \<Longrightarrow>
   sorted_wrt (\<lambda>a b. score_ge (snd a) (snd b)) (insert_desc a xs)"
proof (induction xs)
  case Nil
  show ?case by simp
next
  case (Cons b bs)
  show ?case
  proof (cases "score_ge (snd a) (snd b)")
    case True
    then have "\<forall>c\<in>set bs. score_ge (snd a) (snd c)"
      using Cons.prems by (auto intro: score_ge_trans)
    with True Cons.prems show ?thesis by simp
  next
    case False
    then have "score_ge (snd b) (snd a)"
      by (rule score_ge_total)
    with False Cons show ?thesis
      by (simp add: set_insert_desc)
  qed
qed

lemma mset_insertion_sort_desc: "mset (insertion_sort_desc xs) = mset xs"
  by (induction xs) (simp_all add: insertion_sort_desc_def mset_insert_desc)

lemma sorted_insertion_sort_desc:
  "sorted_wrt (\<lambda>a b. score_ge (snd a) (snd b)) (insertion_sort_desc xs)"
  by (induction xs) (simp_all add: insertion_sort_desc_def sorted_insert_desc)

lemma score_ge_desc: "score_ge (snd a) (snd b) \<Longrightarrow> score_desc a b"
  by (cases "snd a"; cases "snd b") (simp_all add: score_desc_def)

lemma insertion_sort_desc_contract: "sort_values_desc insertion_sort_desc"
  unfolding sort_values_desc_def
proof (intro allI conjI)
  fix xs :: "('a \<times> real option) list"
  show "mset (insertion_sort_desc xs) = mset xs"
    by (rule mset_insertion_sort_desc)
  show "sorted_wrt score_desc (insertion_sort_desc xs)"
    using sorted_insertion_sort_desc [of xs]
    by (rule sorted_wrt_mono_rel [rotated]) (rule score_ge_desc)
qed

lemma drop_masked_same_index:
  "drop_masked (map f xs) (map (\<lambda>x. (x, m x)) xs) = map f (filter (\<lambda>x. \<not> m x) xs)"
  by (induction xs) (simp_all add: drop_masked_def)

lemma set_head: "set (head n xs) \<subseteq> set xs"
  by (auto simp: head_def dest: in_set_takeD)

lemma product_merge_left: "product ` set (merge_left xs products) \<subseteq> fst ` set xs"
proof
  fix p assume "p \<in> product ` set (merge_left xs products)"
  then obtain c r where c: "c \<in> set xs"
    and r: "r \<in> set (case filter (\<lambda>r. product r = fst c) products of
                      [] \<Rightarrow> [unmatched_row c] | ms \<Rightarrow> map (join_row c) ms)"
    and p: "p = product r"
    by (auto simp: merge_left_def)
  from r have "product r = fst c"
    by (auto simp: join_row_def unmatched_row_def split: list.splits)
  with c p show "p \<in> fst ` set xs"
    by auto
qed

lemma hybrid_recommend_eq:
  assumes "u \<in> set (index rm)" and "get_hybrid_scores rm u alpha = Inr (map (\<lambda>p. (p, H p)) (columns rm))"
  shows "hybrid_recommend srt rm products u alpha top_n price_limit cat =
     Inr (let recs = merge_left (head top_n (srt (map (\<lambda>p. (p, H p))
                        (filter (\<lambda>p. \<not> 0 < cell rm u p) (columns rm))))) products;
              recs = (case price_limit of None \<Rightarrow> recs | Some limit \<Rightarrow> filter (price_ok limit) recs)
          in (case cat of None \<Rightarrow> recs | Some c \<Rightarrow> filter (\<lambda>r. category r = Some c) recs))"
proof -
  have "drop_masked (map (\<lambda>p. (p, H p)) (columns rm)) (map (\<lambda>(p, r). (p, 0 < r)) (map (\<lambda>c. (c, cell rm u c)) (columns rm)))
      = map (\<lambda>p. (p, H p)) (filter (\<lambda>p. \<not> 0 < cell rm u p) (columns rm))"
    using drop_masked_same_index [where f = "\<lambda>p. (p, H p)" and m = "\<lambda>p. 0 < cell rm u p" and xs = "columns rm"]
    by (simp add: comp_def)
  then show ?thesis
    using assms by (simp add: hybrid_recommend_def loc_def Let_def split: option.splits)
qed

lemma hybrid_recommend_products:
  assumes "sort_values_desc srt" and "hybrid_recommend srt rm products u alpha top_n price_limit cat = Inr recs"
  shows "product ` set recs \<subseteq> {p \<in> set (columns rm). \<not> 0 < cell rm u p}"
proof -
  have u: "u \<in> set (index rm)"
    using assms(2) by (auto simp: hybrid_recommend_def get_hybrid_scores_def split: if_splits)
  obtain H where h: "get_hybrid_scores rm u alpha = Inr (map (\<lambda>p. (p, H p)) (columns rm))"
    using get_hybrid_scores_shape [OF u] by blast
  define cands where "cands = map (\<lambda>p. (p, H p)) (filter (\<lambda>p. \<not> 0 < cell rm u p) (columns rm))"
  define top where "top = merge_left (head top_n (srt cands)) products"
  have "set (srt cands) = set cands"
    using assms(1) by (auto simp: sort_values_desc_def dest: mset_eq_setD)
  then have "fst ` set (head top_n (srt cands)) \<subseteq> fst ` set cands"
    using set_head [of top_n "srt cands"] by auto
  then have t: "product ` set top \<subseteq> fst ` set cands"
    using product_merge_left [of "head top_n (srt cands)" products] by (auto simp: top_def)
  have "set recs \<subseteq> set top"
    using assms(2) hybrid_recommend_eq [OF u h, of srt products top_n price_limit cat]
    by (auto simp: Let_def top_def cands_def split: option.splits)
  with t have "product ` set recs \<subseteq> fst ` set cands"
    by auto
  then show ?thesis
    by (auto simp: cands_def)
qed





text \<open>
  C1. For a user of the rating matrix, the item-based score of every product \<open>p\<close> is the sum
  over all products \<open>q\<close> of similarity(p, q) times the user's rating of \<open>q\<close>, divided by the
  sum over all products \<open>q\<close> of similarity(p, q) plus \<open>eps\<close>; the numerator is the same
  number as the sum over the products the user rated (\<open>item_score_formula\<close>), the divisor is
  the whole row of the similarity matrix.
\<close>

theorem item_based_score_formula:
  assumes "u \<in> set (index rm)"
  shows "item_based_score rm u =
           Inr (map (\<lambda>p. (p, fdiv (\<Sum>q\<leftarrow>columns rm. cell (item_similarity rm) p q * cell rm u q)
                                ((\<Sum>q\<leftarrow>columns rm. cell (item_similarity rm) p q) + eps)))
                  (columns rm))
       \<and> item_based_score rm u = Inr (map (\<lambda>p. (p, item_score_formula rm u p)) (columns rm))"
  using assms by (simp add: item_based_score_eq item_score_formula_all)

theorem item_based_score_formula_witness:
  "''U1'' \<in> set (index ex_rm)
   \<and> item_based_score ex_rm ''U1'' = Inr (map (\<lambda>p. (p, item_score_formula ex_rm ''U1'' p)) (columns ex_rm))
   \<and> item_based_score ex_rm ''U1'' =
       Inr [(''A'', Some ((123 / 25) / (49 / 25 + eps))), (''B'', Some ((136 / 25) / (49 / 25 + eps))),
            (''C'', Some ((84 / 25) / (49 / 25 + eps))), (''D'', Some 0), (''E'', Some 0)]"
proof -
  have u: "''U1'' \<in> set (index ex_rm)"
    by (simp add: ex_index)
  have "item_based_score ex_rm ''U1'' =
       Inr [(''A'', Some ((123 / 25) / (49 / 25 + eps))), (''B'', Some ((136 / 25) / (49 / 25 + eps))),
            (''C'', Some ((84 / 25) / (49 / 25 + eps))), (''D'', Some 0), (''E'', Some 0)]"
    using item_based_score_formula [OF u] eps_pos
    by (simp add: ex_columns ex_item_sim ex_cell fdiv_def)
  moreover have "item_based_score ex_rm ''U1'' =
      Inr (map (\<lambda>p. (p, item_score_formula ex_rm ''U1'' p)) (columns ex_rm))"
    using item_based_score_formula [OF u] by (rule conjunct2)
  ultimately show ?thesis
    using u by (intro conjI)
qed



text \<open>
  C8. For a user id that is not in the index of the rating matrix, \<open>get_hybrid_scores\<close>
  fails with the error the module raises for an unknown user (a \<open>ValueError\<close>), and so
  does \<open>hybrid_recommend\<close>; for a user id of the index both return a result.
\<close>

theorem unknown_user_error:
  "(u \<notin> set (index rm) \<longrightarrow>
      get_hybrid_scores rm u alpha = Inl ValueError
      \<and> hybrid_recommend srt rm products u alpha top_n price_limit cat = Inl ValueError)
   \<and> (u \<in> set (index rm) \<longrightarrow>
      (\<exists>s. get_hybrid_scores rm u alpha = Inr s)
      \<and> (\<exists>recs. hybrid_recommend srt rm products u alpha top_n price_limit cat = Inr recs))"
proof (intro conjI impI)
  assume "u \<notin> set (index rm)"
  then show g: "get_hybrid_scores rm u alpha = Inl ValueError"
    by (simp add: get_hybrid_scores_def)
  then show "hybrid_recommend srt rm products u alpha top_n price_limit cat = Inl ValueError"
    by (simp add: hybrid_recommend_def)
next
  assume u: "u \<in> set (index rm)"
  obtain H where h: "get_hybrid_scores rm u alpha = Inr (map (\<lambda>p. (p, H p)) (columns rm))"
    using get_hybrid_scores_shape [OF u] by blast
  then show "\<exists>s. get_hybrid_scores rm u alpha = Inr s"
    by blast
  show "\<exists>recs. hybrid_recommend srt rm products u alpha top_n price_limit cat = Inr recs"
    using hybrid_recommend_eq [OF u h] by blast
qed

theorem unknown_user_error_witness:
  "get_hybrid_scores ex_rm ''NO_SUCH_USER'' (1 / 2) = Inl ValueError
   \<and> hybrid_recommend insertion_sort_desc ex_rm ex_products ''NO_SUCH_USER'' (1 / 2) 5 None None
       = Inl ValueError
   \<and> (\<exists>s. get_hybrid_scores ex_rm ''U1'' (1 / 2) = Inr s)
   \<and> (\<exists>recs. hybrid_recommend insertion_sort_desc ex_rm ex_products ''U1'' (1 / 2) 5 None None
         = Inr recs)"
  using unknown_user_error [of "''NO_SUCH_USER''" ex_rm "1 / 2" insertion_sort_desc ex_products 5 None None]
    unknown_user_error [of "''U1''" ex_rm "1 / 2" insertion_sort_desc ex_products 5 None None]
  by (simp add: ex_index)






text \<open>
  C3, as amended. For every user of the rating matrix, whatever \<open>alpha\<close>, \<open>top_n\<close>, price
  limit and category are given, and whatever sorting function that keeps the promise of
  \<open>sort_values\<close> is used, \<open>hybrid_recommend\<close> returns a list, and no product that the user
  has a rating greater than 0 for is in it.
\<close>

theorem positively_rated_products_excluded:
  assumes "sort_values_desc srt" and "u \<in> set (index rm)" and "0 < cell rm u p"
  shows "\<exists>recs. hybrid_recommend srt rm products u alpha top_n price_limit cat = Inr recs
           \<and> p \<notin> product ` set recs"
proof -
  obtain H where h: "get_hybrid_scores rm u alpha = Inr (map (\<lambda>p. (p, H p)) (columns rm))"
    using get_hybrid_scores_shape [OF assms(2)] by blast
  obtain recs where r: "hybrid_recommend srt rm products u alpha top_n price_limit cat = Inr recs"
    using hybrid_recommend_eq [OF assms(2) h] by blast
  have "p \<notin> product ` set recs"
    using hybrid_recommend_products [OF assms(1) r] assms(3) by auto
  with r show ?thesis by blast
qed

theorem positively_rated_products_excluded_witness:
  "sort_values_desc (insertion_sort_desc :: (string, real option) series \<Rightarrow> (string, real option) series)
   \<and> ''U1'' \<in> set (index ex_rm) \<and> 0 < cell ex_rm ''U1'' ''A''
   \<and> (\<exists>recs. hybrid_recommend insertion_sort_desc ex_rm ex_products ''U1'' (3 / 5) 5 None None = Inr recs
          \<and> ''A'' \<notin> product ` set recs)"
proof -
  have u: "''U1'' \<in> set (index ex_rm)"
    by (simp add: ex_index)
  have c: "0 < cell ex_rm ''U1'' ''A''"
    by (simp add: ex_cell)
  show ?thesis
    using positively_rated_products_excluded [OF insertion_sort_desc_contract u c, of ex_products "3 / 5" 5 None None]
      insertion_sort_desc_contract u c
    by blast
qed

text \<open>
  C3, as stated, fails on a negative rating: the mask of line 98 is \<open>> 0\<close>, so a product
  rated \<open>-1\<close> stays a candidate. In the second ratings table, user \<open>U1\<close> has rated \<open>A\<close>
  with \<open>-1\<close> and \<open>B\<close> with \<open>1\<close>; \<open>B\<close> is masked, \<open>A\<close> is the only candidate and is
  returned. A series of one entry is left as it is by every sorting function that returns a
  rearrangement of its argument, so the sorting function plays no part here.
\<close>

lemma sort_values_desc_single:
  assumes "sort_values_desc srt"
  shows "srt [x] = [x]"
proof -
  have "mset (srt [x]) = {#x#}"
    using assms by (simp add: sort_values_desc_def)
  then show ?thesis
    by (simp add: mset_single_iff_right)
qed

lemma ex_neg_index: "index ex_neg_rm = [''U1'']"
  by (simp add: ex_neg_rm_def rating_matrix_def fillna_def reindex_columns_def pivot_table_def
      ex_neg_ratings_def)

lemma ex_neg_columns: "columns ex_neg_rm = [''A'', ''B'']"
  by (simp add: ex_neg_rm_def rating_matrix_def fillna_def reindex_columns_def
      ex_neg_products_def ex_product_def)

lemma ex_neg_cell:
  "cell ex_neg_rm ''U1'' ''A'' = - 1" "cell ex_neg_rm ''U1'' ''B'' = 1"
  by (simp_all add: ex_neg_rm_def rating_matrix_def fillna_def reindex_columns_def
      pivot_table_def ex_neg_ratings_def mean_def group_ratings_def)

lemma ex_neg_item_sim:
  "cell (item_similarity ex_neg_rm) ''A'' ''A'' = 1"
  "cell (item_similarity ex_neg_rm) ''A'' ''B'' = - 1"
  "cell (item_similarity ex_neg_rm) ''B'' ''A'' = - 1"
  "cell (item_similarity ex_neg_rm) ''B'' ''B'' = 1"
  by (simp_all add: item_similarity_def col_vec_def ex_neg_index ex_neg_cell cosine_def dot_def
      l2_normalize_def row_norm_def handle_zeros_in_scale_def)

lemma ex_neg_hybrid_scores:
  "get_hybrid_scores ex_neg_rm ''U1'' (3 / 5) =
     Inr [(''A'', Some (2 / 5 * (- 2 / eps))), (''B'', Some (2 / 5 * (2 / eps)))]"
proof -
  have u: "''U1'' \<in> set (index ex_neg_rm)"
    by (simp add: ex_neg_index)
  show ?thesis
    by (simp add: get_hybrid_scores_eq [OF u] ex_neg_index ex_neg_columns ex_neg_cell
        ex_neg_item_sim fdiv_def fadd_def eps_def)
qed

lemma ex_neg_recommend:
  assumes "sort_values_desc srt"
  shows "hybrid_recommend srt ex_neg_rm ex_neg_products ''U1'' (3 / 5) 5 None None =
     Inr [join_row (''A'', Some (2 / 5 * (- 2 / eps))) (ex_product ''A'' ''Toys'' (Some 10))]"
  by (simp add: hybrid_recommend_def ex_neg_hybrid_scores loc_def ex_neg_index ex_neg_columns
      ex_neg_cell drop_masked_def sort_values_desc_single [OF assms] head_def merge_left_def
      ex_neg_products_def ex_product_def)

theorem negative_rating_not_masked:
  "''U1'' \<in> set (index ex_neg_rm)
   \<and> cell ex_neg_rm ''U1'' ''A'' = - 1
   \<and> hybrid_recommend insertion_sort_desc ex_neg_rm ex_neg_products ''U1'' (3 / 5) 5 None None =
       Inr [join_row (''A'', Some (2 / 5 * (- 2 / eps))) (ex_product ''A'' ''Toys'' (Some 10))]
   \<and> ''A'' \<in> product ` set [join_row (''A'', Some (2 / 5 * (- 2 / eps))) (ex_product ''A'' ''Toys'' (Some 10))]"
  using ex_neg_recommend [OF insertion_sort_desc_contract]
  by (simp add: ex_neg_index ex_neg_cell join_row_def)

lemma filter_product_distinct:
  "distinct (map product products) \<Longrightarrow> length (filter (\<lambda>r. product r = p) products) \<le> 1"
proof (induction products)
  case Nil
  show ?case by simp
next
  case (Cons r rs)
  show ?case
  proof (cases "product r = p")
    case True
    with Cons.prems have "filter (\<lambda>r. product r = p) rs = []"
      by (auto simp: filter_empty_conv image_iff)
    with True show ?thesis by simp
  next
    case False
    with Cons show ?thesis by simp
  qed
qed

lemma length_merge_left:
  assumes "distinct (map product products)"
  shows "length (merge_left xs products) = length xs"
proof -
  have one: "length (case filter (\<lambda>r. product r = fst c) products of
                      [] \<Rightarrow> [unmatched_row c] | ms \<Rightarrow> map (join_row c) ms) = 1" for c
    using filter_product_distinct [OF assms, of "fst c"]
    by (cases "filter (\<lambda>r. product r = fst c) products") auto
  show ?thesis
    by (induction xs) (simp_all add: merge_left_def one)
qed

lemma length_head: "0 \<le> n \<Longrightarrow> int (length (head n xs)) \<le> n"
  by (simp add: head_def)

text \<open>
  C4. Let \<open>ranked\<close> be what \<open>hybrid_recommend\<close> returns without filters: the first \<open>top_n\<close>
  candidates by rank, joined to the catalog. With filters, the result is \<open>ranked\<close> with the
  rows that fail the price filter and then the rows that fail the category filter removed:
  nothing is taken from rank \<open>top_n + 1\<close> on. With unique product ids \<open>ranked\<close> has at most
  \<open>top_n\<close> rows. If \<open>ranked\<close> has \<open>top_n\<close> rows and the price limit excludes exactly one of
  them, and no category is given, the result has \<open>top_n - 1\<close> rows.
\<close>

theorem filter_after_truncation:
  assumes "hybrid_recommend srt rm products u alpha top_n None None = Inr ranked"
  shows "hybrid_recommend srt rm products u alpha top_n price_limit cat =
           Inr (filter (\<lambda>r. case cat of None \<Rightarrow> True | Some c \<Rightarrow> category r = Some c)
                 (filter (\<lambda>r. case price_limit of None \<Rightarrow> True | Some limit \<Rightarrow> price_ok limit r)
                    ranked))
       \<and> hybrid_recommend srt rm products u alpha top_n (Some limit) None =
           Inr (filter (price_ok limit) ranked)
       \<and> (distinct (map product products) \<and> 0 \<le> top_n \<longrightarrow> int (length ranked) \<le> top_n)
       \<and> (length (filter (\<lambda>r. \<not> price_ok limit r) ranked) = 1 \<and> int (length ranked) = top_n \<longrightarrow>
            int (length (filter (price_ok limit) ranked)) = top_n - 1)"
proof -
  have u: "u \<in> set (index rm)"
    using assms by (auto simp: hybrid_recommend_def get_hybrid_scores_def split: if_splits)
  obtain H where h: "get_hybrid_scores rm u alpha = Inr (map (\<lambda>p. (p, H p)) (columns rm))"
    using get_hybrid_scores_shape [OF u] by blast
  define cands where "cands = map (\<lambda>p. (p, H p)) (filter (\<lambda>p. \<not> 0 < cell rm u p) (columns rm))"
  have r: "ranked = merge_left (head top_n (srt cands)) products"
    using assms hybrid_recommend_eq [OF u h, of srt products top_n None None]
    by (simp add: cands_def)
  have g: "hybrid_recommend srt rm products u alpha top_n price_limit cat =
           Inr (filter (\<lambda>r. case cat of None \<Rightarrow> True | Some c \<Rightarrow> category r = Some c)
                 (filter (\<lambda>r. case price_limit of None \<Rightarrow> True | Some limit \<Rightarrow> price_ok limit r)
                    ranked))" for price_limit cat
    using hybrid_recommend_eq [OF u h, of srt products top_n price_limit cat]
    by (cases price_limit; cases cat) (simp_all add: r cands_def Let_def)
  have l: "int (length ranked) \<le> top_n" if "distinct (map product products)" and "0 \<le> top_n"
    using that length_head [of top_n "srt cands"] by (simp add: r length_merge_left)
  have "length (filter (price_ok limit) ranked) + length (filter (\<lambda>r. \<not> price_ok limit r) ranked)
      = length ranked"
    by (rule sum_length_filter_compl)
  then have c: "int (length (filter (price_ok limit) ranked)) = top_n - 1"
    if "length (filter (\<lambda>r. \<not> price_ok limit r) ranked) = 1" and "int (length ranked) = top_n"
    using that by linarith
  show ?thesis
    using g [of price_limit cat] g [of "Some limit" None] l c by simp
qed

lemma ex_hybrid_scores:
  "get_hybrid_scores ex_rm ''U1'' (3 / 5) =
     Inr [(''A'', Some (3 / 5 * (48 / 25 / (24 / 25 + eps)) + 2 / 5 * (123 / 25 / (49 / 25 + eps)))),
          (''B'', Some (3 / 5 * (36 / 25 / (24 / 25 + eps)) + 2 / 5 * (136 / 25 / (49 / 25 + eps)))),
          (''C'', Some (3 / 5 * (84 / 25 / (24 / 25 + eps)) + 2 / 5 * (84 / 25 / (49 / 25 + eps)))),
          (''D'', Some 0), (''E'', Some 0)]"
  by (simp add: get_hybrid_scores_def ex_index ex_item_scores ex_user_scores series_add_def
      series_scale_def fadd_def fdiv_def eps_def)

lemma ex_ranked:
  "hybrid_recommend insertion_sort_desc ex_rm ex_products ''U1'' (3 / 5) 2 None None =
     Inr [join_row (''C'', Some (3 / 5 * (84 / 25 / (24 / 25 + eps)) + 2 / 5 * (84 / 25 / (49 / 25 + eps))))
            (ex_product ''C'' ''Books'' (Some 900)),
          join_row (''D'', Some 0) (ex_product ''D'' ''Books'' (Some 100))]"
  by (simp add: hybrid_recommend_def ex_hybrid_scores loc_def ex_index ex_columns ex_cell
      drop_masked_def insertion_sort_desc_def head_def merge_left_def ex_products_def
      ex_product_def eps_def)

theorem filter_after_truncation_witness:
  "hybrid_recommend insertion_sort_desc ex_rm ex_products ''U1'' (3 / 5) 2 None None =
     Inr [join_row (''C'', Some (3 / 5 * (84 / 25 / (24 / 25 + eps)) + 2 / 5 * (84 / 25 / (49 / 25 + eps))))
            (ex_product ''C'' ''Books'' (Some 900)),
          join_row (''D'', Some 0) (ex_product ''D'' ''Books'' (Some 100))]
   \<and> hybrid_recommend insertion_sort_desc ex_rm ex_products ''U1'' (3 / 5) 2 (Some 500) None =
     Inr [join_row (''D'', Some 0) (ex_product ''D'' ''Books'' (Some 100))]
   \<and> int (length [join_row (''D'', Some 0) (ex_product ''D'' ''Books'' (Some 100))]) = 2 - 1"
  using filter_after_truncation [OF ex_ranked, of None None 500] ex_ranked
  by (simp add: price_ok_def join_row_def ex_product_def)

section \<open>Order of the recommendations\<close>

lemma score_merge_left:
  assumes "r \<in> set (merge_left xs products)"
  shows "\<exists>c\<in>set xs. score r = snd c"
proof -
  from assms obtain c where c: "c \<in> set xs"
    and r: "r \<in> set (case filter (\<lambda>r. product r = fst c) products of
                      [] \<Rightarrow> [unmatched_row c] | ms \<Rightarrow> map (join_row c) ms)"
    by (auto simp: merge_left_def)
  from r have "score r = snd c"
    by (auto simp: join_row_def unmatched_row_def split: list.splits)
  with c show ?thesis by blast
qed

lemma score_desc_refl: "score_desc (p, v) (q, v)"
  by (cases v) (simp_all add: score_desc_def)

lemma merge_left_Cons:
  "merge_left (c # cs) products = merge_left [c] products @ merge_left cs products"
  by (simp add: merge_left_def)

lemma sorted_merge_left:
  "sorted_wrt score_desc xs \<Longrightarrow> sorted_wrt row_desc (merge_left xs products)"
proof (induction xs)
  case Nil
  show ?case by (simp add: merge_left_def)
next
  case (Cons c cs)
  have same: "row_desc a b" if "a \<in> set (merge_left [c] products)" and "b \<in> set (merge_left [c] products)" for a b
    using score_merge_left [OF that(1)] score_merge_left [OF that(2)]
    by (simp add: row_desc_def score_desc_def split: option.splits)
  have "sorted_wrt (\<lambda>a b. True) (merge_left [c] products)"
    by simp
  then have one: "sorted_wrt row_desc (merge_left [c] products)"
    by (rule sorted_wrt_mono_rel [rotated]) (rule same)
  have cross: "row_desc a b" if "a \<in> set (merge_left [c] products)" and "b \<in> set (merge_left cs products)" for a b
  proof -
    from score_merge_left [OF that(1)] have a: "score a = snd c" by simp
    from score_merge_left [OF that(2)] obtain c' where c': "c' \<in> set cs" and b: "score b = snd c'"
      by blast
    from Cons.prems c' have "score_desc c c'" by simp
    with a b show ?thesis
      by (simp add: row_desc_def score_desc_def split: option.splits)
  qed
  from Cons have rest: "sorted_wrt row_desc (merge_left cs products)"
    by simp
  show ?case
    using one rest cross by (subst merge_left_Cons) (simp add: sorted_wrt_append)
qed

text \<open>
  Whatever sorting function that keeps the promise of \<open>sort_values\<close> is used, the rows that
  \<open>hybrid_recommend\<close> returns are in descending order of score: no row with a finite score is
  followed by a row with a larger finite score. The order of rows with equal scores is the
  one the sorting function gives them: line 102 asks for pandas' default sorting algorithm,
  and the module has no tie-break of its own.
\<close>

lemma hybrid_recommend_sorted_desc:
  assumes "sort_values_desc srt"
    and "hybrid_recommend srt rm products u alpha top_n price_limit cat = Inr recs"
  shows "sorted_wrt row_desc recs"
proof -
  have u: "u \<in> set (index rm)"
    using assms(2) by (auto simp: hybrid_recommend_def get_hybrid_scores_def split: if_splits)
  obtain H where h: "get_hybrid_scores rm u alpha = Inr (map (\<lambda>p. (p, H p)) (columns rm))"
    using get_hybrid_scores_shape [OF u] by blast
  define cands where "cands = map (\<lambda>p. (p, H p)) (filter (\<lambda>p. \<not> 0 < cell rm u p) (columns rm))"
  have "sorted_wrt score_desc (srt cands)"
    using assms(1) by (simp add: sort_values_desc_def)
  then have "sorted_wrt score_desc (head top_n (srt cands))"
    by (simp add: head_def sorted_wrt_take)
  then have m: "sorted_wrt row_desc (merge_left (head top_n (srt cands)) products)"
    by (rule sorted_merge_left)
  have "recs = (let recs = merge_left (head top_n (srt cands)) products;
              recs = (case price_limit of None \<Rightarrow> recs | Some limit \<Rightarrow> filter (price_ok limit) recs)
          in (case cat of None \<Rightarrow> recs | Some c \<Rightarrow> filter (\<lambda>r. category r = Some c) recs))"
    using assms(2) hybrid_recommend_eq [OF u h, of srt products top_n price_limit cat]
    by (simp add: cands_def)
  then show ?thesis
    using m by (cases price_limit; cases cat) (simp_all add: sorted_wrt_filter)
qed

end
